theory Spec2Isabelle
  imports Main "HOL-Library.Word"
begin

section \<open>Data model\<close>

text \<open>
  The swap pipeline of the repository (the module imported as \<open>@/lib/swap\<close>, the relayer
  and the webhook route) builds Solana transactions from the answers of external
  services. Addresses are base58 strings, instruction payloads are byte lists, token
  amounts are JavaScript \<open>bigint\<close>s (unbounded, hence \<open>int\<close>), lamport fees and buffer
  lengths are JavaScript numbers holding naturals (hence \<open>nat\<close>; a JavaScript number is
  exact on naturals below \<open>2 ^ 53\<close>).
\<close>

type_synonym byte = "8 word"
type_synonym pubkey = string

text \<open>Every \<open>throw\<close> of the source is a value of this type.\<close>

datatype error =
    Thrown string                       \<comment> \<open>an error raised by an external call, with its message\<close>
  | InvalidPublicKey                    \<comment> \<open>\<open>new PublicKey(s)\<close> on a string that is no key\<close>
  | InvalidEndpoint                     \<comment> \<open>\<open>new Connection(url)\<close> on a bad endpoint\<close>
  | BigIntError                         \<comment> \<open>TypeError, RangeError or SyntaxError of \<open>BigInt(v)\<close>\<close>
  | VaultTokenAccountMissing            \<comment> \<open>"Vault token account does not exist"\<close>
  | InsufficientBalance int int         \<comment> \<open>"Insufficient balance. Vault has .., need .."\<close>
  | InsufficientSol int                 \<comment> \<open>"Vault has insufficient SOL balance: .. lamports"\<close>
  | QuoteFailed string                  \<comment> \<open>"Failed to get quote from Jupiter: .."\<close>
  | SwapFetchFailed string              \<comment> \<open>"Failed to get swap transaction from Jupiter: .."\<close>
  | FeeQuoteFailed string               \<comment> \<open>"Failed to get quote for fee-to-SOL swap from Jupiter: .."\<close>
  | FeeSwapFetchFailed string           \<comment> \<open>"Failed to get fee-to-SOL swap transaction from Jupiter: .."\<close>
  | JupiterInstructionNotFound          \<comment> \<open>"Jupiter swap instruction not found in transaction"\<close>
  | FeeJupiterInstructionNotFound       \<comment> \<open>"Jupiter swap instruction not found for fee-to-SOL swap"\<close>
  | ByteArrayTooLong                    \<comment> \<open>bn.js: "byte array longer than desired length"\<close>
  | ValueOutOfRange                     \<comment> \<open>Node: ERR_OUT_OF_RANGE of \<open>writeUInt32LE\<close>\<close>

text \<open>Sequencing of fallible steps: the first error ends the function, as a \<open>throw\<close> does.\<close>

definition bind_err :: "error + 'a \<Rightarrow> ('a \<Rightarrow> error + 'b) \<Rightarrow> error + 'b" where
  "bind_err m f = (case m of Inl e \<Rightarrow> Inl e | Inr x \<Rightarrow> f x)"

record account_meta =
  pubkey :: pubkey
  isSigner :: bool
  isWritable :: bool

record instruction =
  programId :: pubkey
  keys :: "account_meta list"
  data :: "byte list"




definition PROGRAM_ID :: pubkey where
  "PROGRAM_ID = ''8FaCEp8fDiBwSiqqg2vmNABvTjVfoe65qZLKT9SNGfhA''"

definition JUPITER_PROGRAM_ID :: pubkey where
  "JUPITER_PROGRAM_ID = ''JUP6LkbZbjS1jKKwapdHNy74zcZ3tLUZoi5QNyVTaV4''"


definition TOKEN_PROGRAM_ID :: pubkey where
  "TOKEN_PROGRAM_ID = ''TokenkegQfeZyiNwAJbNbGKPFXCWuBvf9Ss623VQ5DA''"

definition SystemProgram_programId :: pubkey where
  "SystemProgram_programId = ''11111111111111111111111111111111''"


section \<open>Instruction encoding\<close>

text \<open>
  Little-endian bytes of a natural at a fixed width: what both
  \<open>BN.toArrayLike(Buffer, "le", 8)\<close> and \<open>Buffer.writeUInt32LE\<close> store, lowest byte first.
\<close>

fun le_bytes :: "nat \<Rightarrow> nat \<Rightarrow> byte list" where
  "le_bytes 0 n = []"
| "le_bytes (Suc k) n = word_of_nat (n mod 256) # le_bytes k (n div 256)"

text \<open>
  \<open>new BN(v.toString()).toArrayLike(Buffer, "le", 8)\<close>: bn.js writes the magnitude of the
  number and asserts that it fits the requested length.
\<close>

definition BN_toArrayLike_le8 :: "int \<Rightarrow> error + byte list" where
  "BN_toArrayLike_le8 v =
     (if nat \<bar>v\<bar> < 2 ^ 64 then Inr (le_bytes 8 (nat \<bar>v\<bar>)) else Inl ByteArrayTooLong)"

text \<open>\<open>Buffer.allocUnsafe(4)\<close> followed by \<open>writeUInt32LE(n, 0)\<close>, which refuses \<open>n > 2^32 - 1\<close>.\<close>

definition writeUInt32LE :: "nat \<Rightarrow> error + byte list" where
  "writeUInt32LE n = (if n \<le> 4294967295 then Inr (le_bytes 4 n) else Inl ValueOutOfRange)"

definition swapToCbbtcDiscriminator :: "byte list" where
  "swapToCbbtcDiscriminator = [73, 17, 223, 215, 78, 128, 160, 80]"

definition swapFeeToSolDiscriminator :: "byte list" where
  "swapFeeToSolDiscriminator = [98, 85, 227, 2, 32, 184, 191, 80]"


text \<open>
  Lines 308-325 of \<open>buildSwapTransaction\<close> and 514-528 of \<open>buildSwapFeeToSolTransaction\<close>:
  the length prefix is written first, then the two amounts are serialised, and the
  payload is \<open>discriminator | amount_in | min_amount_out | length | bytes\<close>.
\<close>

definition instructionData :: "byte list \<Rightarrow> int \<Rightarrow> int \<Rightarrow> byte list \<Rightarrow> error + byte list" where
  "instructionData discriminator amount minAmountOut jupiterSwapData =
     bind_err (writeUInt32LE (length jupiterSwapData)) (\<lambda>jupiterDataLength.
     bind_err (BN_toArrayLike_le8 amount) (\<lambda>amountIn8.
     bind_err (BN_toArrayLike_le8 minAmountOut) (\<lambda>minAmountOut8.
       Inr (discriminator @ (amountIn8 @ minAmountOut8 @ jupiterDataLength @ jupiterSwapData)))))"


section \<open>JavaScript values and \<open>BigInt\<close>\<close>

text \<open>
  The values a JSON amount field can hold. \<open>JNumber\<close> is a number with an integral
  value, \<open>JNonIntegral\<close> a fraction or an infinity.
\<close>

datatype jsval = JUndefined | JNull | JNaN | JNonIntegral | JNumber int | JString string










text \<open>Division of \<open>bigint\<close>s truncates towards zero.\<close>

definition bigint_div :: "int \<Rightarrow> int \<Rightarrow> int" where
  "bigint_div a b = sgn a * sgn b * (\<bar>a\<bar> div \<bar>b\<bar>)"

section \<open>The environment\<close>










section \<open>Building the swap transactions\<close>










definition coverFeeInstruction :: "pubkey \<Rightarrow> pubkey \<Rightarrow> pubkey \<Rightarrow> byte list \<Rightarrow> instruction" where
  "coverFeeInstruction vault vaultOwner relayerPubkey coverFeeBytes =
     \<lparr>programId = PROGRAM_ID,
      keys = [\<lparr>pubkey = vault, isSigner = False, isWritable = True\<rparr>,
              \<lparr>pubkey = vaultOwner, isSigner = False, isWritable = False\<rparr>,
              \<lparr>pubkey = relayerPubkey, isSigner = False, isWritable = True\<rparr>,
              \<lparr>pubkey = SystemProgram_programId, isSigner = False, isWritable = False\<rparr>],
      data = coverFeeBytes\<rparr>"



definition swapInstructionOf ::
  "pubkey \<Rightarrow> pubkey \<Rightarrow> pubkey \<Rightarrow> pubkey \<Rightarrow> pubkey \<Rightarrow> pubkey \<Rightarrow> pubkey \<Rightarrow>
   account_meta list \<Rightarrow> byte list \<Rightarrow> instruction" where
  "swapInstructionOf vault vaultOwner inputMint cbbtcMint vaultTokenAccount feeTokenAccount
     cbbtcAta jupiterAccounts instructionBytes =
     \<lparr>programId = PROGRAM_ID,
      keys = [\<lparr>pubkey = vault, isSigner = False, isWritable = False\<rparr>,
              \<lparr>pubkey = vaultOwner, isSigner = False, isWritable = False\<rparr>,
              \<lparr>pubkey = inputMint, isSigner = False, isWritable = False\<rparr>,
              \<lparr>pubkey = cbbtcMint, isSigner = False, isWritable = False\<rparr>,
              \<lparr>pubkey = vaultTokenAccount, isSigner = False, isWritable = True\<rparr>,
              \<lparr>pubkey = feeTokenAccount, isSigner = False, isWritable = True\<rparr>,
              \<lparr>pubkey = cbbtcAta, isSigner = False, isWritable = True\<rparr>,
              \<lparr>pubkey = JUPITER_PROGRAM_ID, isSigner = False, isWritable = False\<rparr>,
              \<lparr>pubkey = TOKEN_PROGRAM_ID, isSigner = False, isWritable = False\<rparr>,
              \<lparr>pubkey = SystemProgram_programId, isSigner = False, isWritable = False\<rparr>]
             @ jupiterAccounts,
      data = instructionBytes\<rparr>"


definition swapFeeToSolInstructionOf ::
  "pubkey \<Rightarrow> pubkey \<Rightarrow> pubkey \<Rightarrow> pubkey \<Rightarrow> pubkey \<Rightarrow> account_meta list \<Rightarrow> byte list \<Rightarrow>
   instruction" where
  "swapFeeToSolInstructionOf vault vaultOwner feeTokenMint vaultFeeTokenAccount adminSolAccount
     jupiterAccounts instructionBytes =
     \<lparr>programId = PROGRAM_ID,
      keys = [\<lparr>pubkey = vault, isSigner = False, isWritable = True\<rparr>,
              \<lparr>pubkey = vaultOwner, isSigner = False, isWritable = False\<rparr>,
              \<lparr>pubkey = feeTokenMint, isSigner = False, isWritable = False\<rparr>,
              \<lparr>pubkey = vaultFeeTokenAccount, isSigner = False, isWritable = True\<rparr>,
              \<lparr>pubkey = adminSolAccount, isSigner = False, isWritable = True\<rparr>,
              \<lparr>pubkey = JUPITER_PROGRAM_ID, isSigner = False, isWritable = False\<rparr>,
              \<lparr>pubkey = TOKEN_PROGRAM_ID, isSigner = False, isWritable = False\<rparr>,
              \<lparr>pubkey = SystemProgram_programId, isSigner = False, isWritable = False\<rparr>]
             @ jupiterAccounts,
      data = instructionBytes\<rparr>"


section \<open>Submission through the relayer\<close>

text \<open>
  The effects of the pipeline: the transactions the relayer passed on for broadcast, in
  order, and the lines written to the console.
\<close>

datatype log_entry =
    TransferDetected int string       \<comment> \<open>"SPL token transfer detected: .. of .. to vault"\<close>
  | SwapSubmitted string              \<comment> \<open>"Swap transaction submitted: .."\<close>
  | FeeToSolSubmitted string          \<comment> \<open>"Fee-to-SOL swap transaction submitted: .."\<close>
  | FeeSplitNote int                  \<comment> \<open>"40% fee (.. tokens) swapped to SOL, split: .."\<close>
  | SwapFailed error                  \<comment> \<open>console.error("Swap failed:", error)\<close>
  | SolTransferDetected jsval         \<comment> \<open>"SOL transfer detected: .. lamports to vault"\<close>






section \<open>The deposit dispatcher\<close>




text \<open>Lines 188-189 of the route: the fee split, in \<open>bigint\<close> arithmetic on the deposit.\<close>

definition totalFee :: "int \<Rightarrow> int" where
  "totalFee amount = bigint_div (amount * 100) 10000"

definition feeToVault :: "int \<Rightarrow> int" where
  "feeToVault amount = bigint_div (totalFee amount * 4) 10"












text \<open>What the console shows of the swaps: the signatures submitted and the failures.\<close>

fun swapsSubmitted :: "log_entry list \<Rightarrow> string list" where
  "swapsSubmitted [] = []"
| "swapsSubmitted (SwapSubmitted sig # es) = sig # swapsSubmitted es"
| "swapsSubmitted (e # es) = swapsSubmitted es"

fun failuresLogged :: "log_entry list \<Rightarrow> error list" where
  "failuresLogged [] = []"
| "failuresLogged (SwapFailed err # es) = err # failuresLogged es"
| "failuresLogged (e # es) = failuresLogged es"

section \<open>The wire format, as the specification words it\<close>

text \<open>
  A scalar is little-endian at its declared width: byte \<open>i\<close> of the encoding is digit \<open>i\<close>
  of the number in base 256.
\<close>

definition spec_le :: "nat \<Rightarrow> nat \<Rightarrow> byte list" where
  "spec_le width n = map (\<lambda>i. word_of_nat (n div 256 ^ i mod 256)) [0..<width]"

text \<open>
  Modelled from the spec: the on-chain program that deserialises the payload is not among
  the sources. The decoder skips the 8-byte discriminator, reads a little-endian u64, a
  little-endian u64 and a little-endian u32 length, then that many bytes; a payload too
  short for this is refused. \<open>le_nat\<close> reads a little-endian number.
\<close>

fun le_nat :: "byte list \<Rightarrow> nat" where
  "le_nat [] = 0"
| "le_nat (b # bs) = unat b + 256 * le_nat bs"

definition decodeSwapArgs :: "byte list \<Rightarrow> (int \<times> int \<times> byte list) option" where
  "decodeSwapArgs payload =
     (let args = drop 8 payload;
          routeLen = le_nat (take 4 (drop 16 args))
      in if length args < 20 \<or> length args < 20 + routeLen then None
         else Some (int (le_nat (take 8 args)), int (le_nat (take 8 (drop 8 args))),
                    take routeLen (drop 20 args)))"

section \<open>A test environment\<close>






section \<open>Basic facts\<close>

lemma bind_err_Inl [simp]: "bind_err (Inl e) f = Inl e"
  by (simp add: bind_err_def)

lemma bind_err_Inr [simp]: "bind_err (Inr x) f = f x"
  by (simp add: bind_err_def)




lemma length_le_bytes [simp]: "length (le_bytes k n) = k"
  by (induction k arbitrary: n) auto

text \<open>The recursion of \<open>le_bytes\<close> yields the base-256 digits in ascending order.\<close>

lemma le_bytes_nth: "i < k \<Longrightarrow> le_bytes k n ! i = word_of_nat (n div 256 ^ i mod 256)"
proof (induction k arbitrary: n i)
  case 0
  then show ?case by simp
next
  case (Suc k)
  show ?case
  proof (cases i)
    case 0
    then show ?thesis by simp
  next
    case (Suc j)
    then have "j < k" using Suc.prems by simp
    then have "le_bytes k (n div 256) ! j = word_of_nat (n div 256 div 256 ^ j mod 256)"
      by (rule Suc.IH)
    then show ?thesis using Suc by (simp add: div_mult2_eq)
  qed
qed

lemma le_bytes_spec_le: "le_bytes k n = spec_le k n"
  unfolding spec_le_def by (rule nth_equalityI) (simp_all add: le_bytes_nth)

lemma length_spec_le [simp]: "length (spec_le k n) = k"
  by (simp add: spec_le_def)

lemma le_nat_le_bytes: "n < 256 ^ k \<Longrightarrow> le_nat (le_bytes k n) = n"
proof (induction k arbitrary: n)
  case 0
  then show ?case by simp
next
  case (Suc k)
  have "n div 256 < 256 ^ k"
    using Suc.prems by (simp add: less_mult_imp_div_less mult.commute)
  then have "le_nat (le_bytes k (n div 256)) = n div 256"
    by (rule Suc.IH)
  moreover have "unat (word_of_nat (n mod 256) :: byte) = n mod 256"
    by (simp add: unat_of_nat)
  ultimately show ?case by simp
qed

lemma instructionData_ok:
  assumes "\<bar>a\<bar> < 2 ^ 64" and "\<bar>m\<bar> < 2 ^ 64" and "length r < 2 ^ 32"
  shows "instructionData d a m r =
           Inr (d @ le_bytes 8 (nat \<bar>a\<bar>) @ le_bytes 8 (nat \<bar>m\<bar>) @ le_bytes 4 (length r) @ r)"
  using assms
  by (simp add: instructionData_def writeUInt32LE_def BN_toArrayLike_le8_def nat_less_iff)



section \<open>What a successful build returns\<close>




section \<open>The test environment, evaluated\<close>




lemma data_coverFeeInstruction [simp]:
  "data (coverFeeInstruction v ow r b) = b"
  by (simp add: coverFeeInstruction_def)

lemma data_swapInstructionOf [simp]:
  "data (swapInstructionOf v ow im cm vta fta ca ja b) = b"
  by (simp add: swapInstructionOf_def)

lemma data_swapFeeToSolInstructionOf [simp]:
  "data (swapFeeToSolInstructionOf v ow m vfa adm ja b) = b"
  by (simp add: swapFeeToSolInstructionOf_def)

lemma programId_coverFeeInstruction [simp]:
  "programId (coverFeeInstruction v ow r b) = PROGRAM_ID"
  by (simp add: coverFeeInstruction_def)

lemma programId_swapInstructionOf [simp]:
  "programId (swapInstructionOf v ow im cm vta fta ca ja b) = PROGRAM_ID"
  by (simp add: swapInstructionOf_def)

lemma programId_swapFeeToSolInstructionOf [simp]:
  "programId (swapFeeToSolInstructionOf v ow m vfa adm ja b) = PROGRAM_ID"
  by (simp add: swapFeeToSolInstructionOf_def)


section \<open>Instruction order\<close>



section \<open>The payload of the swap instructions\<close>

text \<open>
  Claim C3. For u64 values \<open>amountIn\<close> and \<open>minAmountOut\<close> and a route whose length fits
  a u32, the data of the \<open>swap_to_cbbtc\<close> call is the discriminator
  \<open>[73,17,223,215,78,128,160,80]\<close>, then \<open>amountIn\<close> and \<open>minAmountOut\<close> as 8 little-endian
  bytes each, then the route's length as 4 little-endian bytes, then the route; the
  \<open>swap_fee_to_sol\<close> call has the same shape after \<open>[98,85,227,2,32,184,191,80]\<close>.
\<close>

theorem swap_payload_layout:
  assumes "0 \<le> amountIn" and "amountIn < 2 ^ 64"
    and "0 \<le> minAmountOut" and "minAmountOut < 2 ^ 64"
    and "length routeBytes < 2 ^ 32"
  shows "instructionData swapToCbbtcDiscriminator amountIn minAmountOut routeBytes =
           Inr ([73, 17, 223, 215, 78, 128, 160, 80]
                @ spec_le 8 (nat amountIn) @ spec_le 8 (nat minAmountOut)
                @ spec_le 4 (length routeBytes) @ routeBytes) \<and>
         instructionData swapFeeToSolDiscriminator amountIn minAmountOut routeBytes =
           Inr ([98, 85, 227, 2, 32, 184, 191, 80]
                @ spec_le 8 (nat amountIn) @ spec_le 8 (nat minAmountOut)
                @ spec_le 4 (length routeBytes) @ routeBytes)"
proof -
  have "\<bar>amountIn\<bar> < 2 ^ 64" and "\<bar>minAmountOut\<bar> < 2 ^ 64"
    using assms by simp_all
  then show ?thesis
    using assms(1,3,5)
    by (simp add: instructionData_ok le_bytes_spec_le swapToCbbtcDiscriminator_def
          swapFeeToSolDiscriminator_def)
qed

text \<open>The bytes of a swap of 2000000 units with a floor of 1990000 and a 3-byte route.\<close>

theorem swap_payload_layout_witness:
  "instructionData swapToCbbtcDiscriminator 2000000 1990000 [229, 23, 203] =
     Inr ([73, 17, 223, 215, 78, 128, 160, 80]
          @ [128, 132, 30, 0, 0, 0, 0, 0] @ [112, 93, 30, 0, 0, 0, 0, 0]
          @ [3, 0, 0, 0] @ [229, 23, 203]) \<and>
   instructionData swapFeeToSolDiscriminator 2000000 1990000 [229, 23, 203] =
     Inr ([98, 85, 227, 2, 32, 184, 191, 80]
          @ [128, 132, 30, 0, 0, 0, 0, 0] @ [112, 93, 30, 0, 0, 0, 0, 0]
          @ [3, 0, 0, 0] @ [229, 23, 203])"
  using swap_payload_layout [of 2000000 1990000 "[229, 23, 203]"]
  by (simp add: spec_le_def upt_conv_Cons)

text \<open>Decoding undoes encoding for every route whose length fits the u32 prefix.\<close>

lemma decode_instructionData:
  assumes "0 \<le> amountIn" and "amountIn < 2 ^ 64"
    and "0 \<le> minAmountOut" and "minAmountOut < 2 ^ 64"
    and len: "length routeBytes < 2 ^ 32"
  shows "\<exists>payload.
           instructionData swapToCbbtcDiscriminator amountIn minAmountOut routeBytes = Inr payload \<and>
           decodeSwapArgs payload = Some (amountIn, minAmountOut, routeBytes)"
proof -
  let ?p = "swapToCbbtcDiscriminator @ le_bytes 8 (nat amountIn) @ le_bytes 8 (nat minAmountOut)
              @ le_bytes 4 (length routeBytes) @ routeBytes"
  have enc: "instructionData swapToCbbtcDiscriminator amountIn minAmountOut routeBytes = Inr ?p"
    using instructionData_ok [of amountIn minAmountOut routeBytes swapToCbbtcDiscriminator]
      assms(1-4) len by simp
  have a: "le_nat (le_bytes 8 (nat amountIn)) = nat amountIn"
    using assms(1,2) by (intro le_nat_le_bytes) (simp add: nat_less_iff)
  have m: "le_nat (le_bytes 8 (nat minAmountOut)) = nat minAmountOut"
    using assms(3,4) by (intro le_nat_le_bytes) (simp add: nat_less_iff)
  have r: "le_nat (le_bytes 4 (length routeBytes)) = length routeBytes"
    using len by (intro le_nat_le_bytes) simp
  have "decodeSwapArgs ?p = Some (amountIn, minAmountOut, routeBytes)"
    using assms(1,3) by (simp add: decodeSwapArgs_def Let_def a m r swapToCbbtcDiscriminator_def)
  with enc show ?thesis by blast
qed

text \<open>
  Claim C9. Decoding the payload built for \<open>swap_to_cbbtc\<close> gives back the amount, the
  minimum and the route, for u64 amounts and routes of 0, 1 or 65535 bytes.
\<close>

theorem swap_args_roundtrip:
  assumes "0 \<le> amountIn" and "amountIn < 2 ^ 64"
    and "0 \<le> minAmountOut" and "minAmountOut < 2 ^ 64"
    and "length routeBytes \<in> {0, 1, 65535}"
  shows "\<exists>payload.
           instructionData swapToCbbtcDiscriminator amountIn minAmountOut routeBytes = Inr payload \<and>
           decodeSwapArgs payload = Some (amountIn, minAmountOut, routeBytes)"
proof -
  have "length routeBytes < 2 ^ 32"
    using assms(5) by auto
  with assms(1-4) show ?thesis
    by (rule decode_instructionData)
qed

text \<open>A route of 65535 bytes.\<close>

theorem swap_args_roundtrip_witness:
  "length (replicate 65535 (7 :: byte)) \<in> {0, 1, 65535} \<and>
   (\<exists>payload.
      instructionData swapToCbbtcDiscriminator 2000000 0 (replicate 65535 7) = Inr payload \<and>
      decodeSwapArgs payload = Some (2000000, 0, replicate 65535 7))"
  using swap_args_roundtrip [of 2000000 0 "replicate 65535 7"]
  by simp

section \<open>The fee estimate\<close>






section \<open>The vault among the aggregator's accounts\<close>













section \<open>A quote without \<open>outAmount\<close>\<close>





section \<open>The fee split\<close>

lemma bigint_div_nonneg: "0 \<le> a \<Longrightarrow> 0 < b \<Longrightarrow> bigint_div a b = a div b"
  by (cases "a = 0") (simp_all add: bigint_div_def)

text \<open>
  Claim C2. For a deposit \<open>amountIn \<ge> 0\<close> the fee computed after the primary swap is
  \<open>totalFee = floor (amountIn * 100 / 10000)\<close> and \<open>feeToVault = floor (totalFee * 4 / 10)\<close>,
  both functions of the deposited amount alone; a deposit of 1000000 gives 10000 and
  4000.
\<close>

theorem fee_split_floor:
  "(0 \<le> amountIn \<longrightarrow>
      totalFee amountIn = amountIn * 100 div 10000 \<and>
      feeToVault amountIn = (amountIn * 100 div 10000) * 4 div 10) \<and>
   totalFee 1000000 = 10000 \<and> feeToVault 1000000 = 4000"
proof (intro conjI impI)
  assume a: "0 \<le> amountIn"
  then show t: "totalFee amountIn = amountIn * 100 div 10000"
    by (simp add: totalFee_def bigint_div_nonneg)
  have "0 \<le> amountIn * 100 div 10000 * 4"
    using a by (simp add: pos_imp_zdiv_nonneg_iff)
  then show "feeToVault amountIn = (amountIn * 100 div 10000) * 4 div 10"
    using t by (simp add: feeToVault_def bigint_div_nonneg)
next
  show "totalFee 1000000 = 10000"
    by (simp add: totalFee_def bigint_div_def)
  show "feeToVault 1000000 = 4000"
    by (simp add: feeToVault_def totalFee_def bigint_div_def)
qed

text \<open>A deposit of 2000000 units.\<close>

theorem fee_split_floor_witness:
  "(0::int) \<le> 2000000 \<and> totalFee 2000000 = 20000 \<and> feeToVault 2000000 = 8000"
  using fee_split_floor [of 2000000]
  by simp

section \<open>The balance guard\<close>





section \<open>Isolation of failures in a batch\<close>

lemma swapsSubmitted_append [simp]:
  "swapsSubmitted (xs @ ys) = swapsSubmitted xs @ swapsSubmitted ys"
  by (induction xs rule: swapsSubmitted.induct) simp_all

lemma failuresLogged_append [simp]:
  "failuresLogged (xs @ ys) = failuresLogged xs @ failuresLogged ys"
  by (induction xs rule: failuresLogged.induct) simp_all
























section \<open>The dispatcher with the look-ups of the source\<close>





end
